theory Spec2Isabelle
  imports Complex_Main "HOL-Library.Word"
begin

section \<open>The ReLU piecewise-linear constraint of Marabou\<close>

text \<open>
  A shallow embedding of \<^verbatim>\<open>src/engine/ReluConstraint.cpp\<close>. The constraint relates an input
  variable \<open>b\<close>, an output variable \<open>f\<close> and an optional slack \<open>aux = f - b\<close> by
  \<open>f = max(b, 0)\<close>. C++ \<^verbatim>\<open>unsigned\<close> variables are 32-bit words, \<^verbatim>\<open>double\<close>s are
  read as real numbers (no NaN, no infinities, no rounding), exceptions are values of
  the type \<open>error\<close>, and calls into the collaborators (bound manager, statistics) are
  collected in the order the code issues them.
\<close>

subsection \<open>Value types\<close>

type_synonym variable = "32 word"

text \<open>
  \<^verbatim>\<open>PhaseStatus\<close> is an enumeration shared by all piecewise-linear constraints; the three
  members this file names are kept, the members of the sibling constraints are
  \<open>PHASE_OTHER\<close> (the \<^verbatim>\<open>default:\<close> of \<^verbatim>\<open>phaseToString\<close>).
\<close>

datatype PhaseStatus =
  PHASE_NOT_FIXED | RELU_PHASE_ACTIVE | RELU_PHASE_INACTIVE | PHASE_OTHER nat

datatype BoundType = LB | UB

datatype Tightening = Tightening variable real BoundType

datatype EquationType = EQ | GE | LE

record Equation =
  eq_type :: EquationType
  addends :: "(real \<times> variable) list"
  scalar :: real

record PiecewiseLinearCaseSplit =
  bounds :: "Tightening list"
  equations :: "Equation list"

datatype Fix = Fix variable real

record TableauRow =
  row_lhs :: variable
  row_entries :: "(variable \<times> real) list"
  row_scalar :: real

datatype MarabouErrorCode =
  PARTICIPATING_VARIABLE_MISSING_ASSIGNMENT
| REQUESTED_CASE_SPLITS_FROM_FIXED_CONSTRAINT
| REQUESTED_NONEXISTENT_CASE_SPLIT

text \<open>
  What a call can raise: a \<^verbatim>\<open>MarabouError\<close> with its code, the
  \<^verbatim>\<open>InfeasibleQueryException\<close>, a failed \<^verbatim>\<open>ASSERT\<close> (assertions are read as in a
  debug build, where they are checked), and a text whose number \<^verbatim>\<open>atoi\<close> cannot
  represent as an \<^verbatim>\<open>int\<close> (C leaves the result undefined).
\<close>

datatype error =
  MarabouError MarabouErrorCode | InfeasibleQueryException | AssertionViolation
| AtoiOutOfRange

subsection \<open>Collaborators\<close>

text \<open>
  The constants of \<^verbatim>\<open>GlobalConfiguration\<close> the file uses are parameters: the default
  epsilon of the \<^verbatim>\<open>FloatUtils\<close> comparisons and the tolerance of the constraint check.
\<close>

record GlobalConfiguration =
  DEFAULT_EPSILON_FOR_COMPARISONS :: real
  CONSTRAINT_COMPARISON_TOLERANCE :: real

text \<open>
  Modelled from the spec: \<^verbatim>\<open>FloatUtils\<close> is not among the sources. The spec
  reads \<^verbatim>\<open>isPositive\<close>, \<^verbatim>\<open>isNegative\<close> and \<^verbatim>\<open>isZero\<close> as \<open>> 0\<close>, \<open>< 0\<close> and
  \<open>= 0\<close>, and \<^verbatim>\<open>areEqual\<close> as equality within a tolerance. The tolerance is the last
  argument, as in the calls of the source (where it is left out, the default epsilon
  is passed); with tolerance \<open>0\<close> the comparisons are the exact ones.
\<close>

definition isPositive :: "real \<Rightarrow> real \<Rightarrow> bool" where
  "isPositive x epsilon = (epsilon < x)"

definition isNegative :: "real \<Rightarrow> real \<Rightarrow> bool" where
  "isNegative x epsilon = (x < - epsilon)"

definition isZero :: "real \<Rightarrow> real \<Rightarrow> bool" where
  "isZero x epsilon = (- epsilon \<le> x \<and> x \<le> epsilon)"

definition areEqual :: "real \<Rightarrow> real \<Rightarrow> real \<Rightarrow> bool" where
  "areEqual x y epsilon = (\<bar>x - y\<bar> \<le> epsilon)"

definition gt :: "real \<Rightarrow> real \<Rightarrow> real \<Rightarrow> bool" where
  "gt x y epsilon = isPositive (x - y) epsilon"

definition lt :: "real \<Rightarrow> real \<Rightarrow> real \<Rightarrow> bool" where
  "lt x y epsilon = isNegative (x - y) epsilon"

text \<open>
  The bound manager as the constraint sees it: the bounds it currently holds, whether
  proofs are produced, and whether a bound explainer exists.
\<close>

record BoundManager =
  bm_getLowerBound :: "variable \<Rightarrow> real"
  bm_getUpperBound :: "variable \<Rightarrow> real"
  shouldProduceProofs :: bool
  getBoundExplainer :: bool

datatype PiecewiseLinearFunctionType = RELU

datatype StatisticsAttribute = NUM_BOUND_NOTIFICATIONS_TO_PL_CONSTRAINTS

text \<open>
  The calls a notification issues to its collaborators. The three-argument overloads
  of the tightening calls take the tightening row, which is absent (\<open>None\<close>) until
  \<^verbatim>\<open>createTighteningRow\<close> has built it.
\<close>

datatype CollaboratorCall =
  incLongAttribute StatisticsAttribute
| tightenLowerBound variable real
| tightenUpperBound variable real
| tightenLowerBoundRow variable real "TableauRow option"
| tightenUpperBoundRow variable real "TableauRow option"
| addLemmaExplanationAndTightenBound
    variable real BoundType "variable list" BoundType PiecewiseLinearFunctionType

text \<open>The tableau as \<^verbatim>\<open>getSmartFixes\<close> consults it.\<close>

record ITableau =
  areLinearlyDependent :: "variable \<Rightarrow> variable \<Rightarrow> bool \<times> real \<times> real"
  isBasic :: "variable \<Rightarrow> bool"

subsection \<open>The constraint\<close>

text \<open>
  The fields of \<^verbatim>\<open>ReluConstraint\<close> and of its base class that the file reads or writes.
  \<^verbatim>\<open>_b\<close>, \<^verbatim>\<open>_f\<close> and \<^verbatim>\<open>_aux\<close> are \<open>b_var\<close>, \<open>f_var\<close> and \<open>aux_var\<close>; pointers to
  collaborators are options; the three context-dependent objects are handles.
\<close>

type_synonym handle = nat

record ReluConstraint =
  b_var :: variable
  f_var :: variable
  aux_var :: variable
  auxVarInUse :: bool
  direction :: PhaseStatus
  haveEliminatedVariables :: bool
  tighteningRow :: "TableauRow option"
  constraintActive :: bool
  phaseStatus :: PhaseStatus
  lowerBounds :: "variable \<rightharpoonup> real"
  upperBounds :: "variable \<rightharpoonup> real"
  assignment :: "variable \<rightharpoonup> real"
  boundManager :: "BoundManager option"
  statistics :: bool
  gurobi :: bool
  score :: real
  tableauAuxVars :: "variable list"
  cdConstraintActive :: "handle option"
  cdPhaseStatus :: "handle option"
  cdInfeasibleCases :: "handle option"

text \<open>\<^verbatim>\<open>ReluConstraint( unsigned b, unsigned f )\<close>. The base-class constructor leaves the
  constraint active, its phase not fixed, and every collaborator absent; \<^verbatim>\<open>_aux\<close> is
  not initialised (here \<open>0\<close>).\<close>

definition ReluConstraint_of :: "variable \<Rightarrow> variable \<Rightarrow> ReluConstraint" where
  "ReluConstraint_of vb vf =
     \<lparr> b_var = vb, f_var = vf, aux_var = 0, auxVarInUse = False,
       direction = PHASE_NOT_FIXED, haveEliminatedVariables = False,
       tighteningRow = None, constraintActive = True, phaseStatus = PHASE_NOT_FIXED,
       lowerBounds = Map.empty, upperBounds = Map.empty, assignment = Map.empty,
       boundManager = None, statistics = False, gurobi = False, score = 0,
       tableauAuxVars = [], cdConstraintActive = None, cdPhaseStatus = None,
       cdInfeasibleCases = None \<rparr>"

text \<open>
  Modelled from the spec: the accessors of \<^verbatim>\<open>PiecewiseLinearConstraint\<close>
  (\<^verbatim>\<open>setPhaseStatus\<close>, \<^verbatim>\<open>isActive\<close>, \<^verbatim>\<open>existsAssignment\<close>, \<^verbatim>\<open>getAssignment\<close>) are not
  among the sources; they write and read the phase, the activity flag and
  the assignment of the constraint.
\<close>

definition setPhaseStatus :: "ReluConstraint \<Rightarrow> PhaseStatus \<Rightarrow> ReluConstraint" where
  "setPhaseStatus c phase = c\<lparr>phaseStatus := phase\<rparr>"

definition isActive :: "ReluConstraint \<Rightarrow> bool" where
  "isActive c = constraintActive c"

definition existsAssignment :: "ReluConstraint \<Rightarrow> variable \<Rightarrow> bool" where
  "existsAssignment c v = (assignment c v \<noteq> None)"

definition getAssignment :: "ReluConstraint \<Rightarrow> variable \<Rightarrow> real" where
  "getAssignment c v = (case assignment c v of Some x \<Rightarrow> x | None \<Rightarrow> 0)"

definition phaseFixed :: "ReluConstraint \<Rightarrow> bool" where
  "phaseFixed c = (phaseStatus c \<noteq> PHASE_NOT_FIXED)"

subsection \<open>Case splits\<close>

text \<open>\<^verbatim>\<open>storeBoundTightening\<close> and \<^verbatim>\<open>addEquation\<close> append to the split.\<close>

definition storeBoundTightening ::
  "PiecewiseLinearCaseSplit \<Rightarrow> Tightening \<Rightarrow> PiecewiseLinearCaseSplit" where
  "storeBoundTightening s t = s\<lparr>bounds := bounds s @ [t]\<rparr>"

definition addEquation ::
  "PiecewiseLinearCaseSplit \<Rightarrow> Equation \<Rightarrow> PiecewiseLinearCaseSplit" where
  "addEquation s e = s\<lparr>equations := equations s @ [e]\<rparr>"

definition emptySplit :: PiecewiseLinearCaseSplit where
  "emptySplit = \<lparr>bounds = [], equations = []\<rparr>"

definition getInactiveSplit :: "ReluConstraint \<Rightarrow> PiecewiseLinearCaseSplit" where
  "getInactiveSplit c =
     storeBoundTightening
       (storeBoundTightening emptySplit (Tightening (b_var c) 0 UB))
       (Tightening (f_var c) 0 UB)"

definition getActiveSplit :: "ReluConstraint \<Rightarrow> PiecewiseLinearCaseSplit" where
  "getActiveSplit c =
     (let activePhase = storeBoundTightening emptySplit (Tightening (b_var c) 0 LB)
      in if auxVarInUse c
         then storeBoundTightening activePhase (Tightening (aux_var c) 0 UB)
         else addEquation activePhase
                \<lparr>eq_type = EQ, addends = [(1, b_var c), (-1, f_var c)], scalar = 0\<rparr>)"

definition getCaseSplits ::
  "GlobalConfiguration \<Rightarrow> ReluConstraint \<Rightarrow> error + PiecewiseLinearCaseSplit list" where
  "getCaseSplits cfg c =
     (if phaseStatus c \<noteq> PHASE_NOT_FIXED
      then Inl (MarabouError REQUESTED_CASE_SPLITS_FROM_FIXED_CONSTRAINT)
      else if direction c = RELU_PHASE_INACTIVE
      then Inr [getInactiveSplit c, getActiveSplit c]
      else if direction c = RELU_PHASE_ACTIVE
      then Inr [getActiveSplit c, getInactiveSplit c]
      else if existsAssignment c (f_var c)
      then (if isPositive (getAssignment c (f_var c)) (DEFAULT_EPSILON_FOR_COMPARISONS cfg)
            then Inr [getActiveSplit c, getInactiveSplit c]
            else Inr [getInactiveSplit c, getActiveSplit c])
      else Inr [getInactiveSplit c, getActiveSplit c])"

definition getAllCases :: "GlobalConfiguration \<Rightarrow> ReluConstraint \<Rightarrow> PhaseStatus list" where
  "getAllCases cfg c =
     (if direction c = RELU_PHASE_INACTIVE
      then [RELU_PHASE_INACTIVE, RELU_PHASE_ACTIVE]
      else if direction c = RELU_PHASE_ACTIVE
      then [RELU_PHASE_ACTIVE, RELU_PHASE_INACTIVE]
      else if existsAssignment c (f_var c)
      then (if isPositive (getAssignment c (f_var c)) (DEFAULT_EPSILON_FOR_COMPARISONS cfg)
            then [RELU_PHASE_ACTIVE, RELU_PHASE_INACTIVE]
            else [RELU_PHASE_INACTIVE, RELU_PHASE_ACTIVE])
      else [RELU_PHASE_INACTIVE, RELU_PHASE_ACTIVE])"

definition getCaseSplit :: "ReluConstraint \<Rightarrow> PhaseStatus \<Rightarrow> error + PiecewiseLinearCaseSplit" where
  "getCaseSplit c phase =
     (if phase = RELU_PHASE_INACTIVE then Inr (getInactiveSplit c)
      else if phase = RELU_PHASE_ACTIVE then Inr (getActiveSplit c)
      else Inl (MarabouError REQUESTED_NONEXISTENT_CASE_SPLIT))"

subsection \<open>Phase fixation and bound notifications\<close>

definition checkIfLowerBoundUpdateFixesPhase ::
  "GlobalConfiguration \<Rightarrow> ReluConstraint \<Rightarrow> variable \<Rightarrow> real \<Rightarrow> ReluConstraint" where
  "checkIfLowerBoundUpdateFixesPhase cfg c v bound =
     (if v = f_var c \<and> isPositive bound (DEFAULT_EPSILON_FOR_COMPARISONS cfg)
      then setPhaseStatus c RELU_PHASE_ACTIVE
      else if v = b_var c \<and> \<not> isNegative bound (DEFAULT_EPSILON_FOR_COMPARISONS cfg)
      then setPhaseStatus c RELU_PHASE_ACTIVE
      else if auxVarInUse c \<and> v = aux_var c
              \<and> isPositive bound (DEFAULT_EPSILON_FOR_COMPARISONS cfg)
      then setPhaseStatus c RELU_PHASE_INACTIVE
      else c)"

definition checkIfUpperBoundUpdateFixesPhase ::
  "GlobalConfiguration \<Rightarrow> ReluConstraint \<Rightarrow> variable \<Rightarrow> real \<Rightarrow> ReluConstraint" where
  "checkIfUpperBoundUpdateFixesPhase cfg c v bound =
     (let c1 = (if (v = f_var c \<or> v = b_var c)
                   \<and> \<not> isPositive bound (DEFAULT_EPSILON_FOR_COMPARISONS cfg)
                then setPhaseStatus c RELU_PHASE_INACTIVE else c)
      in if auxVarInUse c1 \<and> v = aux_var c1
            \<and> isZero bound (DEFAULT_EPSILON_FOR_COMPARISONS cfg)
         then setPhaseStatus c1 RELU_PHASE_ACTIVE else c1)"

definition createTighteningRow :: "BoundManager \<Rightarrow> ReluConstraint \<Rightarrow> ReluConstraint" where
  "createTighteningRow bm c =
     (if \<not> getBoundExplainer bm \<or> tighteningRow c \<noteq> None \<or> \<not> auxVarInUse c
         \<or> tableauAuxVars c = []
      then c
      else c\<lparr>tighteningRow :=
               Some \<lparr>row_lhs = f_var c,
                     row_entries = [(b_var c, 1), (aux_var c, 1), (last (tableauAuxVars c), 1)],
                     row_scalar = 0\<rparr>\<rparr>)"

text \<open>The statistics call that opens both notifications.\<close>

definition countNotification :: "ReluConstraint \<Rightarrow> CollaboratorCall list" where
  "countNotification c =
     (if statistics c then [incLongAttribute NUM_BOUND_NOTIFICATIONS_TO_PL_CONSTRAINTS] else [])"

text \<open>
  The propagation of \<^verbatim>\<open>notifyLowerBound\<close> (the body of \<^verbatim>\<open>if ( isActive() )\<close>, after the
  tightening row has been created): the calls to the bound manager, in order.
\<close>

definition lowerBoundPropagation ::
  "GlobalConfiguration \<Rightarrow> ReluConstraint \<Rightarrow> bool \<Rightarrow> variable \<Rightarrow> real \<Rightarrow> CollaboratorCall list" where
  "lowerBoundPropagation cfg c proofs v bound =
     (let auxToZero =
            (if proofs \<and> auxVarInUse c
             then [addLemmaExplanationAndTightenBound (aux_var c) 0 UB [v] LB RELU]
             else if \<not> proofs \<and> auxVarInUse c then [tightenUpperBound (aux_var c) 0]
             else [])
      in if (v = f_var c \<or> v = b_var c) \<and> bound > 0
         then auxToZero @
              [tightenLowerBoundRow (if v = f_var c then b_var c else f_var c) bound
                 (tighteningRow c)]
         else if auxVarInUse c \<and> v = b_var c
                 \<and> isZero bound (DEFAULT_EPSILON_FOR_COMPARISONS cfg)
         then auxToZero
         else if auxVarInUse c \<and> v = aux_var c \<and> bound > 0
         then [if proofs then addLemmaExplanationAndTightenBound (f_var c) 0 UB [v] LB RELU
               else tightenUpperBound (f_var c) 0,
               tightenUpperBoundRow (b_var c) (- bound) (tighteningRow c)]
         else if auxVarInUse c \<and> v = b_var c \<and> bound < 0
         then (if proofs
               then (if phaseStatus c = RELU_PHASE_INACTIVE
                     then [tightenUpperBoundRow (aux_var c) (- bound) (tighteningRow c)]
                     else if phaseStatus c = PHASE_NOT_FIXED
                     then [addLemmaExplanationAndTightenBound (aux_var c) (- bound) UB [v] LB RELU]
                     else [])
               else [tightenUpperBound (aux_var c) (- bound)])
         else if bound < 0 \<and> v = f_var c
         then [if proofs then addLemmaExplanationAndTightenBound (f_var c) 0 LB [v] LB RELU
               else tightenLowerBound (f_var c) 0]
         else [])"

text \<open>
  \<^verbatim>\<open>notifyLowerBound\<close>: the constraint after the call and the calls issued. Without a
  bound manager the bound is kept in the constraint's own map, and only when it is
  tighter than the one held; with a bound manager the bound is read from it.
\<close>

definition notifyLowerBound ::
  "GlobalConfiguration \<Rightarrow> ReluConstraint \<Rightarrow> variable \<Rightarrow> real
     \<Rightarrow> ReluConstraint \<times> CollaboratorCall list" where
  "notifyLowerBound cfg c v newBound =
     (case boundManager c of
        None \<Rightarrow>
          (if (case lowerBounds c v of
                 Some held \<Rightarrow> \<not> gt newBound held (DEFAULT_EPSILON_FOR_COMPARISONS cfg)
               | None \<Rightarrow> False)
           then (c, countNotification c)
           else (checkIfLowerBoundUpdateFixesPhase cfg
                   (c\<lparr>lowerBounds := (lowerBounds c)(v \<mapsto> newBound)\<rparr>) v newBound,
                 countNotification c))
      | Some bm \<Rightarrow>
          (if phaseFixed c then (c, countNotification c)
           else
             (let bound = bm_getLowerBound bm v;
                  c1 = checkIfLowerBoundUpdateFixesPhase cfg c v bound
              in if isActive c1
                 then (let proofs = shouldProduceProofs bm;
                           c2 = (if proofs then createTighteningRow bm c1 else c1)
                       in (c2, countNotification c @ lowerBoundPropagation cfg c2 proofs v bound))
                 else (c1, countNotification c))))"

text \<open>
  The propagation of \<^verbatim>\<open>notifyUpperBound\<close>: the calls to the bound manager, or the
  \<^verbatim>\<open>InfeasibleQueryException\<close> it throws.
\<close>

definition upperBoundPropagation ::
  "GlobalConfiguration \<Rightarrow> ReluConstraint \<Rightarrow> bool \<Rightarrow> variable \<Rightarrow> real
     \<Rightarrow> error + CollaboratorCall list" where
  "upperBoundPropagation cfg c proofs v bound =
     (if v = f_var c
      then (if proofs
            then (if phaseStatus c \<noteq> RELU_PHASE_INACTIVE
                  then Inr [tightenUpperBoundRow (b_var c) bound (tighteningRow c)]
                  else if isZero bound (DEFAULT_EPSILON_FOR_COMPARISONS cfg)
                  then Inr [addLemmaExplanationAndTightenBound (b_var c) 0 UB [v] UB RELU]
                  else if isNegative bound (DEFAULT_EPSILON_FOR_COMPARISONS cfg)
                  then Inl InfeasibleQueryException
                  else Inr [])
            else Inr [tightenUpperBound (b_var c) bound])
      else if v = b_var c
      then (if \<not> isPositive bound (DEFAULT_EPSILON_FOR_COMPARISONS cfg)
            then Inr ([if proofs
                       then addLemmaExplanationAndTightenBound (f_var c) 0 UB [v] UB RELU
                       else tightenUpperBound (f_var c) 0] @
                      (if auxVarInUse c
                       then [tightenLowerBoundRow (aux_var c) (- bound) (tighteningRow c)]
                       else []))
            else (if proofs
                  then (if phaseStatus c = RELU_PHASE_ACTIVE
                        then Inr [tightenUpperBoundRow (f_var c) bound (tighteningRow c)]
                        else if phaseStatus c = PHASE_NOT_FIXED
                        then Inr [addLemmaExplanationAndTightenBound (f_var c) bound UB [v] UB RELU]
                        else Inr [])
                  else Inr [tightenUpperBound (f_var c) bound]))
      else if auxVarInUse c \<and> v = aux_var c
      then (if proofs
            then (if phaseStatus c \<noteq> RELU_PHASE_ACTIVE
                  then Inr [tightenLowerBoundRow (b_var c) (- bound) (tighteningRow c)]
                  else if isZero bound (DEFAULT_EPSILON_FOR_COMPARISONS cfg)
                  then Inr [addLemmaExplanationAndTightenBound (b_var c) 0 LB [v] UB RELU]
                  else if isNegative bound (DEFAULT_EPSILON_FOR_COMPARISONS cfg)
                  then Inl InfeasibleQueryException
                  else Inr [])
            else Inr [tightenLowerBound (b_var c) (- bound)])
      else Inr [])"

text \<open>
  \<^verbatim>\<open>notifyUpperBound\<close>: the constraint after the call, the calls issued, and the exception
  if one is thrown. A throw leaves the writes made before it in place, so the
  constraint is returned in both cases.
\<close>

definition notifyUpperBound ::
  "GlobalConfiguration \<Rightarrow> ReluConstraint \<Rightarrow> variable \<Rightarrow> real
     \<Rightarrow> ReluConstraint \<times> CollaboratorCall list \<times> error option" where
  "notifyUpperBound cfg c v newBound =
     (case boundManager c of
        None \<Rightarrow>
          (if (case upperBounds c v of
                 Some held \<Rightarrow> \<not> lt newBound held (DEFAULT_EPSILON_FOR_COMPARISONS cfg)
               | None \<Rightarrow> False)
           then (c, countNotification c, None)
           else (checkIfUpperBoundUpdateFixesPhase cfg
                   (c\<lparr>upperBounds := (upperBounds c)(v \<mapsto> newBound)\<rparr>) v newBound,
                 countNotification c, None))
      | Some bm \<Rightarrow>
          (if phaseFixed c then (c, countNotification c, None)
           else
             (let bound = bm_getUpperBound bm v;
                  c1 = checkIfUpperBoundUpdateFixesPhase cfg c v bound
              in if isActive c1
                 then (let proofs = shouldProduceProofs bm;
                           c2 = (if proofs then createTighteningRow bm c1 else c1)
                       in (case upperBoundPropagation cfg c2 proofs v bound of
                             Inr calls \<Rightarrow> (c2, countNotification c @ calls, None)
                           | Inl e \<Rightarrow> (c2, countNotification c, Some e)))
                 else (c1, countNotification c, None))))"

subsection \<open>Snapshots\<close>

text \<open>\<^verbatim>\<open>restoreState\<close>: the copy assignment \<^verbatim>\<open>*this = *relu\<close> between saving and putting
  back the three context-dependent handles.\<close>

definition restoreState :: "ReluConstraint \<Rightarrow> ReluConstraint \<Rightarrow> ReluConstraint" where
  "restoreState this state =
     (let activeStatus = cdConstraintActive this;
          phaseStatus' = cdPhaseStatus this;
          infeasibleCases = cdInfeasibleCases this
      in state\<lparr>cdConstraintActive := activeStatus,
               cdPhaseStatus := phaseStatus',
               cdInfeasibleCases := infeasibleCases\<rparr>)"

subsection \<open>Satisfaction and fixes\<close>

definition satisfied :: "GlobalConfiguration \<Rightarrow> ReluConstraint \<Rightarrow> error + bool" where
  "satisfied cfg c =
     (if \<not> (existsAssignment c (b_var c) \<and> existsAssignment c (f_var c))
      then Inl (MarabouError PARTICIPATING_VARIABLE_MISSING_ASSIGNMENT)
      else
        (let bValue = getAssignment c (b_var c);
             fValue = getAssignment c (f_var c)
         in if isNegative fValue (DEFAULT_EPSILON_FOR_COMPARISONS cfg) then Inr False
            else if isPositive fValue (DEFAULT_EPSILON_FOR_COMPARISONS cfg)
            then Inr (areEqual bValue fValue (CONSTRAINT_COMPARISON_TOLERANCE cfg))
            else Inr (\<not> isPositive bValue (DEFAULT_EPSILON_FOR_COMPARISONS cfg))))"

definition getPossibleFixes :: "GlobalConfiguration \<Rightarrow> ReluConstraint \<Rightarrow> error + Fix list" where
  "getPossibleFixes cfg c =
     (if gurobi c then Inl AssertionViolation
      else case satisfied cfg c of
        Inl e \<Rightarrow> Inl e
      | Inr True \<Rightarrow> Inl AssertionViolation
      | Inr False \<Rightarrow>
        (if \<not> existsAssignment c (b_var c) \<or> \<not> existsAssignment c (f_var c)
         then Inl AssertionViolation
         else
           (let bValue = getAssignment c (b_var c);
                fValue = getAssignment c (f_var c)
            in if isNegative fValue (CONSTRAINT_COMPARISON_TOLERANCE cfg)
               then Inl AssertionViolation
               else if isPositive fValue (DEFAULT_EPSILON_FOR_COMPARISONS cfg)
               then (if isPositive bValue (DEFAULT_EPSILON_FOR_COMPARISONS cfg)
                     then Inr [Fix (b_var c) fValue, Fix (f_var c) bValue]
                     else if direction c = RELU_PHASE_INACTIVE
                     then Inr [Fix (f_var c) 0, Fix (b_var c) fValue]
                     else Inr [Fix (b_var c) fValue, Fix (f_var c) 0])
               else (if direction c = RELU_PHASE_ACTIVE
                     then Inr [Fix (f_var c) bValue, Fix (b_var c) 0]
                     else Inr [Fix (b_var c) 0, Fix (f_var c) bValue]))))"

text \<open>
  The two repair options of \<^verbatim>\<open>getSmartFixes\<close>, each the list of fixes it appends (none
  or one). The coefficients are the ones \<^verbatim>\<open>areLinearlyDependent\<close> has returned. The
  source comments that a dependency has a coefficient that is not \<open>0\<close>; the division by
  \<open>- bDeltaToFDelta\<close> is written as in the source.
\<close>

definition activeFix ::
  "GlobalConfiguration \<Rightarrow> ReluConstraint \<Rightarrow> bool \<Rightarrow> real \<Rightarrow> real \<Rightarrow> Fix list" where
  "activeFix cfg c bIsBasic bDeltaToFDelta fDeltaToBDelta =
     (let bValue = getAssignment c (b_var c);
          fValue = getAssignment c (f_var c)
      in if \<not> bIsBasic
         then (if \<not> areEqual bDeltaToFDelta 1 (DEFAULT_EPSILON_FOR_COMPARISONS cfg)
               then (let activeFixDelta = (bValue - fValue) / (bDeltaToFDelta - 1)
                     in [Fix (b_var c) (bValue + activeFixDelta)])
               else [])
         else (if \<not> areEqual fDeltaToBDelta 1 (DEFAULT_EPSILON_FOR_COMPARISONS cfg)
               then (let activeFixDelta = (fValue - bValue) / (fDeltaToBDelta - 1)
                     in [Fix (f_var c) (fValue + activeFixDelta)])
               else []))"

definition inactiveFix :: "ReluConstraint \<Rightarrow> bool \<Rightarrow> real \<Rightarrow> real \<Rightarrow> Fix list" where
  "inactiveFix c fIsBasic bDeltaToFDelta fDeltaToBDelta =
     (let bValue = getAssignment c (b_var c);
          fValue = getAssignment c (f_var c)
      in if \<not> fIsBasic
         then (let newBValue = bValue + fDeltaToBDelta * (- fValue)
               in if newBValue \<le> 0 then [Fix (f_var c) 0] else [])
         else (let nonactiveFixDelta = fValue / (- bDeltaToFDelta);
                   nonactiveFix = bValue + nonactiveFixDelta
               in if nonactiveFix \<le> 0 then [Fix (b_var c) nonactiveFix] else []))"

definition getSmartFixes ::
  "GlobalConfiguration \<Rightarrow> ReluConstraint \<Rightarrow> ITableau \<Rightarrow> error + Fix list" where
  "getSmartFixes cfg c tableau =
     (if gurobi c then Inl AssertionViolation
      else case satisfied cfg c of
        Inl e \<Rightarrow> Inl e
      | Inr True \<Rightarrow> Inl AssertionViolation
      | Inr False \<Rightarrow>
        (if \<not> (existsAssignment c (f_var c) \<and> existsAssignment c (b_var c))
         then Inl AssertionViolation
         else
           (case areLinearlyDependent tableau (b_var c) (f_var c) of
              (linearlyDependent, bDeltaToFDelta, fDeltaToBDelta) \<Rightarrow>
                if \<not> linearlyDependent then getPossibleFixes cfg c
                else
                  (let fIsBasic = isBasic tableau (f_var c);
                       bIsBasic = isBasic tableau (b_var c)
                   in if bIsBasic = fIsBasic then Inl AssertionViolation
                      else Inr (activeFix cfg c bIsBasic bDeltaToFDelta fDeltaToBDelta @
                                inactiveFix c fIsBasic bDeltaToFDelta fDeltaToBDelta)))))"

text \<open>
  Modelled from the spec: the tableau that applies a fix is not among the sources. The spec describes a dependency by "the linear coefficient relating a unit
  change of the non-basic variable to the resulting change of the basic one": a fix
  moves its variable to the target value, and the other variable by the coefficient
  times the same change. The result is the pair of values of \<open>b\<close> and \<open>f\<close> after the
  fix.
\<close>

definition valuesAfterFix :: "ReluConstraint \<Rightarrow> real \<Rightarrow> real \<Rightarrow> Fix \<Rightarrow> real \<times> real" where
  "valuesAfterFix c bDeltaToFDelta fDeltaToBDelta fix =
     (let bValue = getAssignment c (b_var c);
          fValue = getAssignment c (f_var c)
      in case fix of Fix v x \<Rightarrow>
           if v = b_var c then (x, fValue + bDeltaToFDelta * (x - bValue))
           else (bValue + fDeltaToBDelta * (x - fValue), x))"

subsection \<open>Serialization\<close>












subsection \<open>The order of the cases, in the words of the specification\<close>

text \<open>
  The phase the specification puts first: the direction hint when it names a phase;
  else the phase matching the sign of the assignment of \<open>f\<close>; else Inactive.
\<close>

definition preferredPhase :: "GlobalConfiguration \<Rightarrow> ReluConstraint \<Rightarrow> PhaseStatus" where
  "preferredPhase cfg c =
     (if direction c = RELU_PHASE_ACTIVE \<or> direction c = RELU_PHASE_INACTIVE then direction c
      else case assignment c (f_var c) of
             Some fValue \<Rightarrow>
               if DEFAULT_EPSILON_FOR_COMPARISONS cfg < fValue then RELU_PHASE_ACTIVE
               else RELU_PHASE_INACTIVE
           | None \<Rightarrow> RELU_PHASE_INACTIVE)"

definition oppositePhase :: "PhaseStatus \<Rightarrow> PhaseStatus" where
  "oppositePhase p = (if p = RELU_PHASE_ACTIVE then RELU_PHASE_INACTIVE else RELU_PHASE_ACTIVE)"

definition splitOfPhase :: "ReluConstraint \<Rightarrow> PhaseStatus \<Rightarrow> PiecewiseLinearCaseSplit" where
  "splitOfPhase c p = (if p = RELU_PHASE_ACTIVE then getActiveSplit c else getInactiveSplit c)"

subsection \<open>What a notification establishes\<close>

text \<open>
  The invariant of the data model: the participating variables are two (no aux) or
  three (with aux) different variables.
\<close>

definition validConfiguration :: "ReluConstraint \<Rightarrow> bool" where
  "validConfiguration c =
     (b_var c \<noteq> f_var c \<and> (auxVarInUse c \<longrightarrow> aux_var c \<noteq> b_var c \<and> aux_var c \<noteq> f_var c))"

text \<open>
  The bound of its variable that a notification establishes. With a bound manager it
  is the bound the manager holds (the argument of the notification is not read).
  Without one it is the new bound where that is tighter than the bound held, and
  none where it is not: the notification then changes nothing.
\<close>

definition lowerBoundBecomes ::
  "GlobalConfiguration \<Rightarrow> ReluConstraint \<Rightarrow> variable \<Rightarrow> real \<Rightarrow> real option" where
  "lowerBoundBecomes cfg c v newBound =
     (case boundManager c of
        Some bm \<Rightarrow> Some (bm_getLowerBound bm v)
      | None \<Rightarrow>
          (case lowerBounds c v of
             None \<Rightarrow> Some newBound
           | Some held \<Rightarrow>
               if gt newBound held (DEFAULT_EPSILON_FOR_COMPARISONS cfg) then Some newBound
               else None))"

definition upperBoundBecomes ::
  "GlobalConfiguration \<Rightarrow> ReluConstraint \<Rightarrow> variable \<Rightarrow> real \<Rightarrow> real option" where
  "upperBoundBecomes cfg c v newBound =
     (case boundManager c of
        Some bm \<Rightarrow> Some (bm_getUpperBound bm v)
      | None \<Rightarrow>
          (case upperBounds c v of
             None \<Rightarrow> Some newBound
           | Some held \<Rightarrow>
               if lt newBound held (DEFAULT_EPSILON_FOR_COMPARISONS cfg) then Some newBound
               else None))"

subsection \<open>Configurations used as examples\<close>

definition exactConfiguration :: GlobalConfiguration where
  "exactConfiguration =
     \<lparr>DEFAULT_EPSILON_FOR_COMPARISONS = 0, CONSTRAINT_COMPARISON_TOLERANCE = 0\<rparr>"

definition tolerantConfiguration :: GlobalConfiguration where
  "tolerantConfiguration =
     \<lparr>DEFAULT_EPSILON_FOR_COMPARISONS = 1 / 10, CONSTRAINT_COMPARISON_TOLERANCE = 1 / 2\<rparr>"

text \<open>
  The first scenario of the specification (\<open>b\<close> in \<open>[-5, 5]\<close>, \<open>f\<close> unbounded), and a
  constraint attached to a bound manager that holds the upper bound \<open>-1\<close> for \<open>f\<close>.
\<close>

definition scenarioConstraint :: ReluConstraint where
  "scenarioConstraint =
     (ReluConstraint_of 0 1)\<lparr>lowerBounds := [0 \<mapsto> - 5], upperBounds := [0 \<mapsto> 5]\<rparr>"

definition exampleBoundManager :: "bool \<Rightarrow> BoundManager" where
  "exampleBoundManager proofs =
     \<lparr>bm_getLowerBound = (\<lambda>v. - 10),
      bm_getUpperBound = (\<lambda>v. if v = 1 then - 1 else 10),
      shouldProduceProofs = proofs,
      getBoundExplainer = proofs\<rparr>"

definition managedConstraint :: "bool \<Rightarrow> ReluConstraint" where
  "managedConstraint proofs =
     (ReluConstraint_of 0 1)\<lparr>boundManager := Some (exampleBoundManager proofs)\<rparr>"

text \<open>
  The example in the comment of \<^verbatim>\<open>getSmartFixes\<close>: \<open>b = 0\<close>, \<open>f = 6\<close>, \<open>b\<close> basic with
  \<open>b = ... - 2 f ...\<close>.
\<close>

definition commentTableau :: ITableau where
  "commentTableau =
     \<lparr>areLinearlyDependent = (\<lambda>x y. (True, - 1 / 2, - 2)), isBasic = (\<lambda>v. v = 0)\<rparr>"

definition commentConstraint :: ReluConstraint where
  "commentConstraint = (ReluConstraint_of 0 1)\<lparr>assignment := [0 \<mapsto> 0, 1 \<mapsto> 6]\<rparr>"

text \<open>
  An unsatisfied assignment \<open>b = 0\<close>, \<open>f = 1\<close> with \<open>f\<close> basic and \<open>f = ... + 4 b ...\<close>,
  and the assignment the active repair leads to.
\<close>

definition steepTableau :: ITableau where
  "steepTableau =
     \<lparr>areLinearlyDependent = (\<lambda>x y. (True, 4, 1 / 4)), isBasic = (\<lambda>v. v = 1)\<rparr>"

definition steepConstraint :: ReluConstraint where
  "steepConstraint = (ReluConstraint_of 0 1)\<lparr>assignment := [0 \<mapsto> 0, 1 \<mapsto> 1]\<rparr>"

definition steepRepaired :: ReluConstraint where
  "steepRepaired =
     (ReluConstraint_of 0 1)\<lparr>assignment := [0 \<mapsto> - 1 / 3, 1 \<mapsto> - 1 / 3]\<rparr>"


section \<open>Properties\<close>

subsection \<open>Case splits\<close>

text \<open>
  C5: while the phase is not fixed, \<^verbatim>\<open>getAllCases\<close> and \<^verbatim>\<open>getCaseSplits\<close> yield exactly
  the two cases Active and Inactive, the preferred phase first: the direction hint,
  else the phase matching the sign of the assignment of \<open>f\<close> (Active when it is
  positive, else Inactive), else Inactive before Active.
\<close>

theorem getCaseSplits_getAllCases_order:
  assumes "phaseStatus c = PHASE_NOT_FIXED"
  shows "getAllCases cfg c = [preferredPhase cfg c, oppositePhase (preferredPhase cfg c)]
       \<and> getCaseSplits cfg c =
           Inr [splitOfPhase c (preferredPhase cfg c),
                splitOfPhase c (oppositePhase (preferredPhase cfg c))]
       \<and> set (getAllCases cfg c) = {RELU_PHASE_ACTIVE, RELU_PHASE_INACTIVE}"
  using assms
  by (auto simp: getAllCases_def getCaseSplits_def preferredPhase_def oppositePhase_def
      splitOfPhase_def existsAssignment_def getAssignment_def isPositive_def
      split: option.splits)

theorem getCaseSplits_getAllCases_order_witness:
  "getAllCases exactConfiguration ((ReluConstraint_of 0 1)\<lparr>assignment := [1 \<mapsto> 2]\<rparr>)
     = [RELU_PHASE_ACTIVE, RELU_PHASE_INACTIVE]
   \<and> getCaseSplits exactConfiguration ((ReluConstraint_of 0 1)\<lparr>assignment := [1 \<mapsto> 2]\<rparr>) =
      Inr [\<lparr>bounds = [Tightening 0 0 LB],
             equations = [\<lparr>eq_type = EQ, addends = [(1, 0), (- 1, 1)], scalar = 0\<rparr>]\<rparr>,
           \<lparr>bounds = [Tightening 0 0 UB, Tightening 1 0 UB], equations = []\<rparr>]"
  using getCaseSplits_getAllCases_order
    [where c = "(ReluConstraint_of 0 1)\<lparr>assignment := [1 \<mapsto> 2]\<rparr>"
       and cfg = exactConfiguration]
  by (simp add: ReluConstraint_of_def exactConfiguration_def preferredPhase_def
      oppositePhase_def splitOfPhase_def getActiveSplit_def getInactiveSplit_def
      storeBoundTightening_def addEquation_def emptySplit_def)

text \<open>
  C6: the Active split is the tightening \<open>b \<ge> 0\<close> with, when aux is in use, the
  tightening \<open>aux \<le> 0\<close> and no equation, and otherwise the one equation \<open>b - f = 0\<close>;
  the Inactive split is the tightenings \<open>b \<le> 0\<close> and \<open>f \<le> 0\<close> and no equation.
\<close>

theorem getActiveSplit_getInactiveSplit_contents:
  "getActiveSplit c =
     (if auxVarInUse c
      then \<lparr>bounds = [Tightening (b_var c) 0 LB, Tightening (aux_var c) 0 UB], equations = []\<rparr>
      else \<lparr>bounds = [Tightening (b_var c) 0 LB],
            equations = [\<lparr>eq_type = EQ, addends = [(1, b_var c), (- 1, f_var c)], scalar = 0\<rparr>]\<rparr>)
   \<and> getInactiveSplit c =
       \<lparr>bounds = [Tightening (b_var c) 0 UB, Tightening (f_var c) 0 UB], equations = []\<rparr>"
  by (simp add: getActiveSplit_def getInactiveSplit_def storeBoundTightening_def
      addEquation_def emptySplit_def)

text \<open>
  C7: \<^verbatim>\<open>getCaseSplits\<close> on a constraint whose phase is fixed raises the usage error, and
  \<^verbatim>\<open>getCaseSplit\<close> raises the nonexistent-case-split error for every phase other than
  Active and Inactive.
\<close>

theorem getCaseSplits_getCaseSplit_errors:
  "(phaseStatus c \<noteq> PHASE_NOT_FIXED \<longrightarrow>
      getCaseSplits cfg c = Inl (MarabouError REQUESTED_CASE_SPLITS_FROM_FIXED_CONSTRAINT))
   \<and> (phase \<noteq> RELU_PHASE_ACTIVE \<and> phase \<noteq> RELU_PHASE_INACTIVE \<longrightarrow>
      getCaseSplit c phase = Inl (MarabouError REQUESTED_NONEXISTENT_CASE_SPLIT))"
  by (simp add: getCaseSplits_def getCaseSplit_def)

theorem getCaseSplits_getCaseSplit_errors_witness:
  "getCaseSplits exactConfiguration ((ReluConstraint_of 0 1)\<lparr>phaseStatus := RELU_PHASE_ACTIVE\<rparr>)
     = Inl (MarabouError REQUESTED_CASE_SPLITS_FROM_FIXED_CONSTRAINT)
   \<and> getCaseSplit ((ReluConstraint_of 0 1)\<lparr>phaseStatus := RELU_PHASE_ACTIVE\<rparr>) (PHASE_OTHER 7)
     = Inl (MarabouError REQUESTED_NONEXISTENT_CASE_SPLIT)"
  using getCaseSplits_getCaseSplit_errors
    [where c = "(ReluConstraint_of 0 1)\<lparr>phaseStatus := RELU_PHASE_ACTIVE\<rparr>"
       and phase = "PHASE_OTHER 7" and cfg = exactConfiguration]
  by simp

subsection \<open>Snapshots\<close>

text \<open>
  C10: \<^verbatim>\<open>restoreState\<close> copies every field of the snapshot into the constraint, except
  the three context-dependent handles (active status, phase status, infeasible
  cases), which keep the values the constraint had before the call.
\<close>

theorem restoreState_frame:
  "b_var (restoreState this state) = b_var state
   \<and> f_var (restoreState this state) = f_var state
   \<and> aux_var (restoreState this state) = aux_var state
   \<and> auxVarInUse (restoreState this state) = auxVarInUse state
   \<and> direction (restoreState this state) = direction state
   \<and> haveEliminatedVariables (restoreState this state) = haveEliminatedVariables state
   \<and> tighteningRow (restoreState this state) = tighteningRow state
   \<and> constraintActive (restoreState this state) = constraintActive state
   \<and> phaseStatus (restoreState this state) = phaseStatus state
   \<and> lowerBounds (restoreState this state) = lowerBounds state
   \<and> upperBounds (restoreState this state) = upperBounds state
   \<and> assignment (restoreState this state) = assignment state
   \<and> boundManager (restoreState this state) = boundManager state
   \<and> statistics (restoreState this state) = statistics state
   \<and> gurobi (restoreState this state) = gurobi state
   \<and> score (restoreState this state) = score state
   \<and> tableauAuxVars (restoreState this state) = tableauAuxVars state
   \<and> cdConstraintActive (restoreState this state) = cdConstraintActive this
   \<and> cdPhaseStatus (restoreState this state) = cdPhaseStatus this
   \<and> cdInfeasibleCases (restoreState this state) = cdInfeasibleCases this"
  by (simp add: restoreState_def)

subsection \<open>Satisfaction\<close>

text \<open>
  C2: \<^verbatim>\<open>satisfied\<close> throws the missing-assignment error when \<open>b\<close> or \<open>f\<close> has no
  assignment; otherwise it returns false when the value of \<open>f\<close> is negative, whether
  \<open>b\<close> equals \<open>f\<close> within the tolerance when it is positive, and whether \<open>b\<close> is not
  positive when it is zero. So it decides \<open>f = max(b, 0)\<close> up to the tolerances: an
  assignment with \<open>f = max(b, 0)\<close> is satisfied, a satisfied one has \<open>f\<close> within the
  tolerance of \<open>max(b, 0)\<close>, and with exact comparisons the two coincide.
\<close>

theorem satisfied_decides_relu:
  "(\<not> (existsAssignment c (b_var c) \<and> existsAssignment c (f_var c)) \<longrightarrow>
      satisfied cfg c = Inl (MarabouError PARTICIPATING_VARIABLE_MISSING_ASSIGNMENT))
   \<and> (assignment c (b_var c) = Some bValue \<and> assignment c (f_var c) = Some fValue \<longrightarrow>
      satisfied cfg c =
        Inr (if fValue < - DEFAULT_EPSILON_FOR_COMPARISONS cfg then False
             else if DEFAULT_EPSILON_FOR_COMPARISONS cfg < fValue
             then \<bar>bValue - fValue\<bar> \<le> CONSTRAINT_COMPARISON_TOLERANCE cfg
             else bValue \<le> DEFAULT_EPSILON_FOR_COMPARISONS cfg)
      \<and> (0 \<le> DEFAULT_EPSILON_FOR_COMPARISONS cfg \<and> 0 \<le> CONSTRAINT_COMPARISON_TOLERANCE cfg \<longrightarrow>
           (fValue = max bValue 0 \<longrightarrow> satisfied cfg c = Inr True)
         \<and> (satisfied cfg c = Inr True \<longrightarrow>
              \<bar>fValue - max bValue 0\<bar>
                \<le> max (CONSTRAINT_COMPARISON_TOLERANCE cfg)
                      (2 * DEFAULT_EPSILON_FOR_COMPARISONS cfg)))
      \<and> (DEFAULT_EPSILON_FOR_COMPARISONS cfg = 0 \<and> CONSTRAINT_COMPARISON_TOLERANCE cfg = 0 \<longrightarrow>
           satisfied cfg c = Inr (fValue = max bValue 0)))"
  by (auto simp: satisfied_def existsAssignment_def getAssignment_def isNegative_def
      isPositive_def areEqual_def)

theorem satisfied_decides_relu_witness:
  "satisfied exactConfiguration (ReluConstraint_of 0 1)
     = Inl (MarabouError PARTICIPATING_VARIABLE_MISSING_ASSIGNMENT)
   \<and> satisfied exactConfiguration ((ReluConstraint_of 0 1)\<lparr>assignment := [0 \<mapsto> 3, 1 \<mapsto> 3]\<rparr>)
     = Inr True
   \<and> satisfied exactConfiguration ((ReluConstraint_of 0 1)\<lparr>assignment := [0 \<mapsto> - 2, 1 \<mapsto> 1]\<rparr>)
     = Inr False
   \<and> satisfied tolerantConfiguration
       ((ReluConstraint_of 0 1)\<lparr>assignment := [0 \<mapsto> 3, 1 \<mapsto> 17 / 5]\<rparr>)
     = Inr True"
  using satisfied_decides_relu
    [where c = "ReluConstraint_of 0 1" and cfg = exactConfiguration]
    satisfied_decides_relu
    [where c = "(ReluConstraint_of 0 1)\<lparr>assignment := [0 \<mapsto> 3, 1 \<mapsto> 3]\<rparr>"
       and cfg = exactConfiguration and bValue = 3 and fValue = 3]
    satisfied_decides_relu
    [where c = "(ReluConstraint_of 0 1)\<lparr>assignment := [0 \<mapsto> - 2, 1 \<mapsto> 1]\<rparr>"
       and cfg = exactConfiguration and bValue = "- 2" and fValue = 1]
    satisfied_decides_relu
    [where c = "(ReluConstraint_of 0 1)\<lparr>assignment := [0 \<mapsto> 3, 1 \<mapsto> 17 / 5]\<rparr>"
       and cfg = tolerantConfiguration and bValue = 3 and fValue = "17 / 5"]
  by (simp add: ReluConstraint_of_def exactConfiguration_def tolerantConfiguration_def
      existsAssignment_def)

subsection \<open>Phase fixation\<close>

lemma setPhaseStatus_simps [simp]:
  "phaseStatus (setPhaseStatus c p) = p"
  "auxVarInUse (setPhaseStatus c p) = auxVarInUse c"
  "aux_var (setPhaseStatus c p) = aux_var c"
  "b_var (setPhaseStatus c p) = b_var c"
  "f_var (setPhaseStatus c p) = f_var c"
  "constraintActive (setPhaseStatus c p) = constraintActive c"
  "boundManager (setPhaseStatus c p) = boundManager c"
  by (simp_all add: setPhaseStatus_def)

lemma createTighteningRow_phase [simp]:
  "phaseStatus (createTighteningRow bm c) = phaseStatus c"
  by (simp add: createTighteningRow_def)

lemma phase_checkIfLower:
  "phaseStatus (checkIfLowerBoundUpdateFixesPhase cfg c v bound) =
     (if v = f_var c \<and> isPositive bound (DEFAULT_EPSILON_FOR_COMPARISONS cfg)
      then RELU_PHASE_ACTIVE
      else if v = b_var c \<and> \<not> isNegative bound (DEFAULT_EPSILON_FOR_COMPARISONS cfg)
      then RELU_PHASE_ACTIVE
      else if auxVarInUse c \<and> v = aux_var c
              \<and> isPositive bound (DEFAULT_EPSILON_FOR_COMPARISONS cfg)
      then RELU_PHASE_INACTIVE
      else phaseStatus c)"
  by (simp add: checkIfLowerBoundUpdateFixesPhase_def)

lemma phase_checkIfUpper:
  "phaseStatus (checkIfUpperBoundUpdateFixesPhase cfg c v bound) =
     (if auxVarInUse c \<and> v = aux_var c \<and> isZero bound (DEFAULT_EPSILON_FOR_COMPARISONS cfg)
      then RELU_PHASE_ACTIVE
      else if (v = f_var c \<or> v = b_var c)
              \<and> \<not> isPositive bound (DEFAULT_EPSILON_FOR_COMPARISONS cfg)
      then RELU_PHASE_INACTIVE
      else phaseStatus c)"
proof -
  define c1 where "c1 = (if (v = f_var c \<or> v = b_var c)
                   \<and> \<not> isPositive bound (DEFAULT_EPSILON_FOR_COMPARISONS cfg)
                then setPhaseStatus c RELU_PHASE_INACTIVE else c)"
  have 1: "auxVarInUse c1 = auxVarInUse c" "aux_var c1 = aux_var c"
    by (simp_all add: c1_def)
  have 2: "phaseStatus c1 = (if (v = f_var c \<or> v = b_var c)
                   \<and> \<not> isPositive bound (DEFAULT_EPSILON_FOR_COMPARISONS cfg)
                then RELU_PHASE_INACTIVE else phaseStatus c)"
    by (simp add: c1_def)
  have "checkIfUpperBoundUpdateFixesPhase cfg c v bound =
     (if auxVarInUse c1 \<and> v = aux_var c1 \<and> isZero bound (DEFAULT_EPSILON_FOR_COMPARISONS cfg)
         then setPhaseStatus c1 RELU_PHASE_ACTIVE else c1)"
    unfolding checkIfUpperBoundUpdateFixesPhase_def Let_def c1_def ..
  then show ?thesis
    by (simp add: 1 2)
qed

lemma phase_notifyLowerBound_standalone:
  assumes "boundManager c = None"
  shows "phaseStatus (fst (notifyLowerBound cfg c v newBound)) =
     (case lowerBoundBecomes cfg c v newBound of
        None \<Rightarrow> phaseStatus c
      | Some bound \<Rightarrow>
          phaseStatus (checkIfLowerBoundUpdateFixesPhase cfg
            (c\<lparr>lowerBounds := (lowerBounds c)(v \<mapsto> newBound)\<rparr>) v bound))"
  using assms
  by (simp add: notifyLowerBound_def lowerBoundBecomes_def split: option.splits)

lemma phase_notifyLowerBound_managed:
  assumes "boundManager c = Some bm" and "\<not> phaseFixed c"
  shows "phaseStatus (fst (notifyLowerBound cfg c v newBound)) =
     phaseStatus (checkIfLowerBoundUpdateFixesPhase cfg c v (bm_getLowerBound bm v))"
  using assms by (simp add: notifyLowerBound_def Let_def)

lemma phase_notifyUpperBound_standalone:
  assumes "boundManager c = None"
  shows "phaseStatus (fst (notifyUpperBound cfg c v newBound)) =
     (case upperBoundBecomes cfg c v newBound of
        None \<Rightarrow> phaseStatus c
      | Some bound \<Rightarrow>
          phaseStatus (checkIfUpperBoundUpdateFixesPhase cfg
            (c\<lparr>upperBounds := (upperBounds c)(v \<mapsto> newBound)\<rparr>) v bound))"
  using assms
  by (simp add: notifyUpperBound_def upperBoundBecomes_def split: option.splits)

lemma phase_notifyUpperBound_managed:
  assumes "boundManager c = Some bm" and "\<not> phaseFixed c"
  shows "phaseStatus (fst (notifyUpperBound cfg c v newBound)) =
     phaseStatus (checkIfUpperBoundUpdateFixesPhase cfg c v (bm_getUpperBound bm v))"
  using assms by (simp add: notifyUpperBound_def Let_def split: sum.splits)

lemma phase_after_lower:
  assumes "phaseStatus c = PHASE_NOT_FIXED"
  shows "phaseStatus (fst (notifyLowerBound cfg c v newBound)) =
     (case lowerBoundBecomes cfg c v newBound of
        None \<Rightarrow> PHASE_NOT_FIXED
      | Some bound \<Rightarrow>
         (if v = f_var c \<and> isPositive bound (DEFAULT_EPSILON_FOR_COMPARISONS cfg)
          then RELU_PHASE_ACTIVE
          else if v = b_var c \<and> \<not> isNegative bound (DEFAULT_EPSILON_FOR_COMPARISONS cfg)
          then RELU_PHASE_ACTIVE
          else if auxVarInUse c \<and> v = aux_var c
                  \<and> isPositive bound (DEFAULT_EPSILON_FOR_COMPARISONS cfg)
          then RELU_PHASE_INACTIVE
          else PHASE_NOT_FIXED))"
proof (cases "boundManager c")
  case None
  show ?thesis
  proof (cases "lowerBoundBecomes cfg c v newBound")
    case none: None
    show ?thesis
      by (simp only: phase_notifyLowerBound_standalone [OF None] none option.case assms)
  next
    case (Some bound)
    have upd: "f_var (c\<lparr>lowerBounds := (lowerBounds c)(v \<mapsto> newBound)\<rparr>) = f_var c"
      "b_var (c\<lparr>lowerBounds := (lowerBounds c)(v \<mapsto> newBound)\<rparr>) = b_var c"
      "aux_var (c\<lparr>lowerBounds := (lowerBounds c)(v \<mapsto> newBound)\<rparr>) = aux_var c"
      "auxVarInUse (c\<lparr>lowerBounds := (lowerBounds c)(v \<mapsto> newBound)\<rparr>) = auxVarInUse c"
      "phaseStatus (c\<lparr>lowerBounds := (lowerBounds c)(v \<mapsto> newBound)\<rparr>) = phaseStatus c"
      by simp_all
    show ?thesis
      by (simp only: phase_notifyLowerBound_standalone [OF None] Some option.case
          phase_checkIfLower upd assms)
  qed
next
  case (Some bm)
  have nf: "\<not> phaseFixed c" using assms by (simp add: phaseFixed_def)
  have bec: "lowerBoundBecomes cfg c v newBound = Some (bm_getLowerBound bm v)"
    using Some by (simp add: lowerBoundBecomes_def)
  show ?thesis
    by (simp only: phase_notifyLowerBound_managed [OF Some nf] bec option.case
        phase_checkIfLower assms)
qed

lemma phase_after_upper:
  assumes "phaseStatus c = PHASE_NOT_FIXED"
  shows "phaseStatus (fst (notifyUpperBound cfg c v newBound)) =
     (case upperBoundBecomes cfg c v newBound of
        None \<Rightarrow> PHASE_NOT_FIXED
      | Some bound \<Rightarrow>
         (if auxVarInUse c \<and> v = aux_var c
             \<and> isZero bound (DEFAULT_EPSILON_FOR_COMPARISONS cfg)
          then RELU_PHASE_ACTIVE
          else if (v = f_var c \<or> v = b_var c)
                  \<and> \<not> isPositive bound (DEFAULT_EPSILON_FOR_COMPARISONS cfg)
          then RELU_PHASE_INACTIVE
          else PHASE_NOT_FIXED))"
proof (cases "boundManager c")
  case None
  show ?thesis
  proof (cases "upperBoundBecomes cfg c v newBound")
    case none: None
    show ?thesis
      by (simp only: phase_notifyUpperBound_standalone [OF None] none option.case assms)
  next
    case (Some bound)
    have upd: "f_var (c\<lparr>upperBounds := (upperBounds c)(v \<mapsto> newBound)\<rparr>) = f_var c"
      "b_var (c\<lparr>upperBounds := (upperBounds c)(v \<mapsto> newBound)\<rparr>) = b_var c"
      "aux_var (c\<lparr>upperBounds := (upperBounds c)(v \<mapsto> newBound)\<rparr>) = aux_var c"
      "auxVarInUse (c\<lparr>upperBounds := (upperBounds c)(v \<mapsto> newBound)\<rparr>) = auxVarInUse c"
      "phaseStatus (c\<lparr>upperBounds := (upperBounds c)(v \<mapsto> newBound)\<rparr>) = phaseStatus c"
      by simp_all
    show ?thesis
      by (simp only: phase_notifyUpperBound_standalone [OF None] Some option.case
          phase_checkIfUpper upd assms)
  qed
next
  case (Some bm)
  have nf: "\<not> phaseFixed c" using assms by (simp add: phaseFixed_def)
  have bec: "upperBoundBecomes cfg c v newBound = Some (bm_getUpperBound bm v)"
    using Some by (simp add: upperBoundBecomes_def)
  show ?thesis
    by (simp only: phase_notifyUpperBound_managed [OF Some nf] bec option.case
        phase_checkIfUpper assms)
qed

text \<open>
  C1: on a constraint whose phase is not fixed, a lower-bound notification makes the
  phase Active exactly when it establishes a positive lower bound of \<open>f\<close> or a
  lower bound of \<open>b\<close> that is not negative, and Inactive exactly when aux is in use
  and it establishes a positive lower bound of aux; an upper-bound notification makes
  the phase Inactive exactly when it establishes an upper bound of \<open>f\<close> or \<open>b\<close> that
  is not positive, and Active exactly when aux is in use and it establishes a zero
  upper bound of aux; every other notification leaves the phase not fixed.
\<close>

theorem phase_fixation_table:
  assumes "phaseStatus c = PHASE_NOT_FIXED" and "validConfiguration c"
  shows
    "(phaseStatus (fst (notifyLowerBound cfg c v newBound)) = RELU_PHASE_ACTIVE) =
       (case lowerBoundBecomes cfg c v newBound of
          None \<Rightarrow> False
        | Some bound \<Rightarrow>
            (v = f_var c \<and> isPositive bound (DEFAULT_EPSILON_FOR_COMPARISONS cfg))
            \<or> (v = b_var c \<and> \<not> isNegative bound (DEFAULT_EPSILON_FOR_COMPARISONS cfg)))
     \<and> (phaseStatus (fst (notifyLowerBound cfg c v newBound)) = RELU_PHASE_INACTIVE) =
       (case lowerBoundBecomes cfg c v newBound of
          None \<Rightarrow> False
        | Some bound \<Rightarrow>
            auxVarInUse c \<and> v = aux_var c
            \<and> isPositive bound (DEFAULT_EPSILON_FOR_COMPARISONS cfg))
     \<and> (phaseStatus (fst (notifyUpperBound cfg c v newBound)) = RELU_PHASE_INACTIVE) =
       (case upperBoundBecomes cfg c v newBound of
          None \<Rightarrow> False
        | Some bound \<Rightarrow>
            (v = f_var c \<or> v = b_var c)
            \<and> \<not> isPositive bound (DEFAULT_EPSILON_FOR_COMPARISONS cfg))
     \<and> (phaseStatus (fst (notifyUpperBound cfg c v newBound)) = RELU_PHASE_ACTIVE) =
       (case upperBoundBecomes cfg c v newBound of
          None \<Rightarrow> False
        | Some bound \<Rightarrow>
            auxVarInUse c \<and> v = aux_var c
            \<and> isZero bound (DEFAULT_EPSILON_FOR_COMPARISONS cfg))
     \<and> phaseStatus (fst (notifyLowerBound cfg c v newBound))
         \<in> {PHASE_NOT_FIXED, RELU_PHASE_ACTIVE, RELU_PHASE_INACTIVE}
     \<and> phaseStatus (fst (notifyUpperBound cfg c v newBound))
         \<in> {PHASE_NOT_FIXED, RELU_PHASE_ACTIVE, RELU_PHASE_INACTIVE}"
  using assms(2)
  unfolding phase_after_lower [OF assms(1)] phase_after_upper [OF assms(1)]
  by (auto simp: validConfiguration_def split: option.splits)


theorem phase_fixation_table_witness:
  "phaseStatus (fst (notifyLowerBound exactConfiguration scenarioConstraint 1 (1 / 10)))
     = RELU_PHASE_ACTIVE
   \<and> phaseStatus (fst (notifyUpperBound exactConfiguration scenarioConstraint 0 0))
     = RELU_PHASE_INACTIVE
   \<and> phaseStatus (fst (notifyUpperBound exactConfiguration scenarioConstraint 0 6))
     = PHASE_NOT_FIXED"
  using phase_fixation_table
    [where c = scenarioConstraint and cfg = exactConfiguration and v = 1 and newBound = "1 / 10"]
    phase_fixation_table
    [where c = scenarioConstraint and cfg = exactConfiguration and v = 0 and newBound = 0]
    phase_fixation_table
    [where c = scenarioConstraint and cfg = exactConfiguration and v = 0 and newBound = 6]
  by (auto simp: scenarioConstraint_def ReluConstraint_of_def exactConfiguration_def
      validConfiguration_def lowerBoundBecomes_def upperBoundBecomes_def
      isPositive_def isNegative_def isZero_def gt_def lt_def)

subsection \<open>Infeasibility\<close>

lemma notifyUpperBound_managed_unfold:
  assumes "boundManager c = Some bm" and "\<not> phaseFixed c"
  shows "notifyUpperBound cfg c v newBound =
     (let bound = bm_getUpperBound bm v;
          c1 = checkIfUpperBoundUpdateFixesPhase cfg c v bound
      in if isActive c1
         then (let proofs = shouldProduceProofs bm;
                   c2 = (if proofs then createTighteningRow bm c1 else c1)
               in (case upperBoundPropagation cfg c2 proofs v bound of
                     Inr calls \<Rightarrow> (c2, countNotification c @ calls, None)
                   | Inl e \<Rightarrow> (c2, countNotification c, Some e)))
         else (c1, countNotification c, None))"
  using assms by (simp add: notifyUpperBound_def)

lemma checkIfUpper_fields [simp]:
  "f_var (checkIfUpperBoundUpdateFixesPhase cfg c v bound) = f_var c"
  "b_var (checkIfUpperBoundUpdateFixesPhase cfg c v bound) = b_var c"
  "constraintActive (checkIfUpperBoundUpdateFixesPhase cfg c v bound) = constraintActive c"
  by (simp_all add: checkIfUpperBoundUpdateFixesPhase_def Let_def)

lemma createTighteningRow_fields [simp]:
  "f_var (createTighteningRow bm c) = f_var c"
  "b_var (createTighteningRow bm c) = b_var c"
  by (simp_all add: createTighteningRow_def)

text \<open>
  C3, as amended: with a bound manager, on an active constraint whose phase is not
  fixed on entry, an upper-bound notification for \<open>f\<close> that finds a negative upper
  bound fixes the phase to Inactive and, when proofs are produced, throws the
  infeasibility exception before any tightening is issued; when proofs are not
  produced it throws nothing and passes the bound on as an upper bound of \<open>b\<close>. A
  notification that finds the phase already fixed returns at once, and without a
  bound manager no upper-bound notification throws.
\<close>

theorem notifyUpperBound_infeasibility:
  assumes "0 \<le> DEFAULT_EPSILON_FOR_COMPARISONS cfg"
  shows
    "(boundManager c = Some bm \<and> phaseStatus c = PHASE_NOT_FIXED \<and> constraintActive c
        \<and> isNegative (bm_getUpperBound bm (f_var c)) (DEFAULT_EPSILON_FOR_COMPARISONS cfg) \<longrightarrow>
        phaseStatus (fst (notifyUpperBound cfg c (f_var c) newBound)) = RELU_PHASE_INACTIVE
        \<and> snd (notifyUpperBound cfg c (f_var c) newBound) =
            (if shouldProduceProofs bm
             then (countNotification c, Some InfeasibleQueryException)
             else (countNotification c
                     @ [tightenUpperBound (b_var c) (bm_getUpperBound bm (f_var c))], None)))
     \<and> (boundManager c = Some bm \<and> phaseFixed c \<longrightarrow>
          notifyUpperBound cfg c v newBound = (c, countNotification c, None))
     \<and> (boundManager c = None \<longrightarrow> snd (snd (notifyUpperBound cfg c v newBound)) = None)"
proof (intro conjI impI)
  assume a: "boundManager c = Some bm \<and> phaseStatus c = PHASE_NOT_FIXED \<and> constraintActive c
        \<and> isNegative (bm_getUpperBound bm (f_var c)) (DEFAULT_EPSILON_FOR_COMPARISONS cfg)"
  then have nf: "\<not> phaseFixed c" by (simp add: phaseFixed_def)
  from a assms have np: "\<not> isPositive (bm_getUpperBound bm (f_var c)) (DEFAULT_EPSILON_FOR_COMPARISONS cfg)"
    and nz: "\<not> isZero (bm_getUpperBound bm (f_var c)) (DEFAULT_EPSILON_FOR_COMPARISONS cfg)"
    by (auto simp: isNegative_def isPositive_def isZero_def)
  have ph: "phaseStatus (checkIfUpperBoundUpdateFixesPhase cfg c (f_var c) (bm_getUpperBound bm (f_var c)))
      = RELU_PHASE_INACTIVE"
    using np nz by (simp add: phase_checkIfUpper)
  show "phaseStatus (fst (notifyUpperBound cfg c (f_var c) newBound)) = RELU_PHASE_INACTIVE"
    using a nf ph by (simp add: phase_notifyUpperBound_managed)
  show "snd (notifyUpperBound cfg c (f_var c) newBound) =
            (if shouldProduceProofs bm
             then (countNotification c, Some InfeasibleQueryException)
             else (countNotification c
                     @ [tightenUpperBound (b_var c) (bm_getUpperBound bm (f_var c))], None))"
    using a nz ph
    by (simp add: notifyUpperBound_managed_unfold [OF _ nf] Let_def isActive_def
        upperBoundPropagation_def)
next
  assume "boundManager c = Some bm \<and> phaseFixed c"
  then show "notifyUpperBound cfg c v newBound = (c, countNotification c, None)"
    by (simp add: notifyUpperBound_def)
next
  assume "boundManager c = None"
  then show "snd (snd (notifyUpperBound cfg c v newBound)) = None"
    by (simp add: notifyUpperBound_def)
qed

theorem notifyUpperBound_infeasibility_witness:
  "snd (notifyUpperBound exactConfiguration (managedConstraint True) 1 (- 1))
     = ([], Some InfeasibleQueryException)
   \<and> snd (notifyUpperBound exactConfiguration (managedConstraint False) 1 (- 1))
     = ([tightenUpperBound 0 (- 1)], None)"
  using notifyUpperBound_infeasibility
    [where cfg = exactConfiguration and c = "managedConstraint True"
       and bm = "exampleBoundManager True" and newBound = "- 1"]
    notifyUpperBound_infeasibility
    [where cfg = exactConfiguration and c = "managedConstraint False"
       and bm = "exampleBoundManager False" and newBound = "- 1"]
  by (simp add: exactConfiguration_def managedConstraint_def exampleBoundManager_def
      ReluConstraint_of_def isNegative_def countNotification_def)

text \<open>
  C3 as stated fails: with the phase already Inactive and proofs produced, with proofs
  not produced, and without a bound manager (where the negative bound is stored), the
  notification of the upper bound \<open>-1\<close> of \<open>f\<close> throws nothing.
\<close>

theorem notifyUpperBound_no_infeasibility_counterexample:
  "snd (snd (notifyUpperBound exactConfiguration
               ((managedConstraint True)\<lparr>phaseStatus := RELU_PHASE_INACTIVE\<rparr>) 1 (- 1))) = None
   \<and> snd (snd (notifyUpperBound exactConfiguration (managedConstraint False) 1 (- 1))) = None
   \<and> snd (snd (notifyUpperBound exactConfiguration
               ((ReluConstraint_of 0 1)\<lparr>phaseStatus := RELU_PHASE_INACTIVE\<rparr>) 1 (- 1))) = None
   \<and> upperBounds (fst (notifyUpperBound exactConfiguration
               ((ReluConstraint_of 0 1)\<lparr>phaseStatus := RELU_PHASE_INACTIVE\<rparr>) 1 (- 1))) 1
       = Some (- 1)"
  by (simp add: notifyUpperBound_def exactConfiguration_def managedConstraint_def
      exampleBoundManager_def ReluConstraint_of_def phaseFixed_def isActive_def
      checkIfUpperBoundUpdateFixesPhase_def setPhaseStatus_def isPositive_def isZero_def
      upperBoundPropagation_def Let_def)

subsection \<open>Monotonicity of the phase\<close>

text \<open>
  C4 fails without a bound manager: there every accepted notification runs the
  fixation check again. The lower bound \<open>0\<close> of \<open>b\<close> fixes the phase to Active and the
  upper bound \<open>0\<close> of \<open>b\<close> then overwrites it with Inactive; so do the lower bound
  \<open>1\<close> of \<open>f\<close> and the upper bound \<open>-1\<close> of \<open>b\<close>.
\<close>

theorem standalone_phase_overwritten:
  "phaseStatus (fst (notifyLowerBound exactConfiguration (ReluConstraint_of 0 1) 0 0))
     = RELU_PHASE_ACTIVE
   \<and> phaseStatus (fst (notifyUpperBound exactConfiguration
        (fst (notifyLowerBound exactConfiguration (ReluConstraint_of 0 1) 0 0)) 0 0))
     = RELU_PHASE_INACTIVE
   \<and> phaseStatus (fst (notifyLowerBound exactConfiguration (ReluConstraint_of 0 1) 1 1))
     = RELU_PHASE_ACTIVE
   \<and> phaseStatus (fst (notifyUpperBound exactConfiguration
        (fst (notifyLowerBound exactConfiguration (ReluConstraint_of 0 1) 1 1)) 0 (- 1)))
     = RELU_PHASE_INACTIVE"
  by (simp add: notifyLowerBound_def notifyUpperBound_def exactConfiguration_def
      ReluConstraint_of_def checkIfLowerBoundUpdateFixesPhase_def
      checkIfUpperBoundUpdateFixesPhase_def setPhaseStatus_def isPositive_def
      isNegative_def isZero_def Let_def)

text \<open>With a bound manager the guard \<^verbatim>\<open>!phaseFixed()\<close> keeps a fixed phase.\<close>

lemma managed_notifications_keep_fixed_phase:
  assumes "boundManager c = Some bm" and "phaseFixed c"
  shows "fst (notifyLowerBound cfg c v newBound) = c
       \<and> fst (notifyUpperBound cfg c v newBound) = c"
  using assms by (simp add: notifyLowerBound_def notifyUpperBound_def)


subsection \<open>Smart fixes\<close>

lemma getSmartFixes_unfold:
  assumes "satisfied cfg c = Inr False" and "\<not> gurobi c"
    and "areLinearlyDependent tableau (b_var c) (f_var c) = (dep, bD, fD)"
  shows "getSmartFixes cfg c tableau =
     (if \<not> dep then getPossibleFixes cfg c
      else if isBasic tableau (b_var c) = isBasic tableau (f_var c) then Inl AssertionViolation
      else Inr (activeFix cfg c (isBasic tableau (b_var c)) bD fD @
                inactiveFix c (isBasic tableau (f_var c)) bD fD))"
proof -
  have ex: "existsAssignment c (f_var c) \<and> existsAssignment c (b_var c)"
    using assms(1) by (auto simp: satisfied_def split: if_splits)
  show ?thesis
    using assms ex by (simp add: getSmartFixes_def Let_def)
qed

lemma activeFix_lands:
  assumes "0 \<le> DEFAULT_EPSILON_FOR_COMPARISONS cfg" and "b_var c \<noteq> f_var c"
    and "fx \<in> set (activeFix cfg c bIsBasic bD fD)"
  shows "fst (valuesAfterFix c bD fD fx) = snd (valuesAfterFix c bD fD fx)"
proof (cases bIsBasic)
  case False
  with assms(3) have ne: "\<not> areEqual bD 1 (DEFAULT_EPSILON_FOR_COMPARISONS cfg)"
    and fx: "fx = Fix (b_var c)
       (getAssignment c (b_var c)
         + (getAssignment c (b_var c) - getAssignment c (f_var c)) / (bD - 1))"
    by (auto simp: activeFix_def Let_def split: if_splits)
  from ne assms(1) have "bD - 1 \<noteq> 0" by (auto simp: areEqual_def)
  then show ?thesis
    unfolding fx by (simp add: valuesAfterFix_def Let_def field_simps)
next
  case True
  with assms(3) have ne: "\<not> areEqual fD 1 (DEFAULT_EPSILON_FOR_COMPARISONS cfg)"
    and fx: "fx = Fix (f_var c)
       (getAssignment c (f_var c)
         + (getAssignment c (f_var c) - getAssignment c (b_var c)) / (fD - 1))"
    by (auto simp: activeFix_def Let_def split: if_splits)
  from ne assms(1) have "fD - 1 \<noteq> 0" by (auto simp: areEqual_def)
  then show ?thesis
    unfolding fx using assms(2) by (simp add: valuesAfterFix_def Let_def field_simps)
qed

lemma inactiveFix_lands:
  assumes "b_var c \<noteq> f_var c" and "fIsBasic \<longrightarrow> bD \<noteq> 0"
    and "fx \<in> set (inactiveFix c fIsBasic bD fD)"
  shows "snd (valuesAfterFix c bD fD fx) = 0 \<and> fst (valuesAfterFix c bD fD fx) \<le> 0"
proof (cases fIsBasic)
  case False
  with assms(3) have le: "getAssignment c (b_var c) + fD * (- getAssignment c (f_var c)) \<le> 0"
    and fx: "fx = Fix (f_var c) 0"
    by (auto simp: inactiveFix_def Let_def split: if_splits)
  show ?thesis
    unfolding fx using assms(1) le by (simp add: valuesAfterFix_def Let_def)
next
  case True
  with assms(3) have le: "getAssignment c (b_var c) + getAssignment c (f_var c) / (- bD) \<le> 0"
    and fx: "fx = Fix (b_var c) (getAssignment c (b_var c) + getAssignment c (f_var c) / (- bD))"
    by (auto simp: inactiveFix_def Let_def split: if_splits)
  from True assms(2) have "bD \<noteq> 0" by simp
  then show ?thesis
    unfolding fx using le by (simp add: valuesAfterFix_def Let_def)
qed

lemma activeFix_skipped:
  assumes "0 \<le> DEFAULT_EPSILON_FOR_COMPARISONS cfg"
    and "(if bIsBasic then fD else bD) = 1"
  shows "activeFix cfg c bIsBasic bD fD = []"
  using assms by (auto simp: activeFix_def areEqual_def Let_def split: if_splits)

text \<open>
  What holds of the repairs of an unsatisfied constraint. When the tableau reports
  \<open>b\<close> and \<open>f\<close> linearly independent, \<^verbatim>\<open>getSmartFixes\<close> returns what
  \<^verbatim>\<open>getPossibleFixes\<close> returns. When they are dependent (one of them basic, the
  coefficient of a basic \<open>f\<close> not zero), it returns the active repair followed by the
  inactive repair; applying the active repair makes \<open>b\<close> and \<open>f\<close> equal; the inactive
  repair is emitted only with a resulting \<open>b \<le> 0\<close> and applying it makes \<open>f\<close> zero;
  and no active repair is emitted when its coefficient is exactly \<open>1\<close>.
\<close>

lemma getSmartFixes_repairs:
  assumes "satisfied cfg c = Inr False" and "\<not> gurobi c"
    and "0 \<le> DEFAULT_EPSILON_FOR_COMPARISONS cfg"
    and "areLinearlyDependent tableau (b_var c) (f_var c) = (dep, bDeltaToFDelta, fDeltaToBDelta)"
  shows
    "(\<not> dep \<longrightarrow> getSmartFixes cfg c tableau = getPossibleFixes cfg c)
     \<and> (dep \<and> b_var c \<noteq> f_var c \<and> isBasic tableau (b_var c) \<noteq> isBasic tableau (f_var c)
          \<and> (isBasic tableau (f_var c) \<longrightarrow> bDeltaToFDelta \<noteq> 0) \<longrightarrow>
        getSmartFixes cfg c tableau =
          Inr (activeFix cfg c (isBasic tableau (b_var c)) bDeltaToFDelta fDeltaToBDelta @
               inactiveFix c (isBasic tableau (f_var c)) bDeltaToFDelta fDeltaToBDelta)
        \<and> (\<forall>fx \<in> set (activeFix cfg c (isBasic tableau (b_var c)) bDeltaToFDelta fDeltaToBDelta).
              fst (valuesAfterFix c bDeltaToFDelta fDeltaToBDelta fx)
                = snd (valuesAfterFix c bDeltaToFDelta fDeltaToBDelta fx))
        \<and> (\<forall>fx \<in> set (inactiveFix c (isBasic tableau (f_var c)) bDeltaToFDelta fDeltaToBDelta).
              snd (valuesAfterFix c bDeltaToFDelta fDeltaToBDelta fx) = 0
              \<and> fst (valuesAfterFix c bDeltaToFDelta fDeltaToBDelta fx) \<le> 0)
        \<and> ((if isBasic tableau (b_var c) then fDeltaToBDelta else bDeltaToFDelta) = 1 \<longrightarrow>
              activeFix cfg c (isBasic tableau (b_var c)) bDeltaToFDelta fDeltaToBDelta = []))"
proof (intro conjI impI ballI)
  assume "\<not> dep"
  then show "getSmartFixes cfg c tableau = getPossibleFixes cfg c"
    by (simp add: getSmartFixes_unfold [OF assms(1,2,4)])
next
  assume a: "dep \<and> b_var c \<noteq> f_var c \<and> isBasic tableau (b_var c) \<noteq> isBasic tableau (f_var c)
          \<and> (isBasic tableau (f_var c) \<longrightarrow> bDeltaToFDelta \<noteq> 0)"
  then show "getSmartFixes cfg c tableau =
          Inr (activeFix cfg c (isBasic tableau (b_var c)) bDeltaToFDelta fDeltaToBDelta @
               inactiveFix c (isBasic tableau (f_var c)) bDeltaToFDelta fDeltaToBDelta)"
    by (simp only: getSmartFixes_unfold [OF assms(1,2,4)] simp_thms if_False if_True)
next
  fix fx
  assume "dep \<and> b_var c \<noteq> f_var c \<and> isBasic tableau (b_var c) \<noteq> isBasic tableau (f_var c)
          \<and> (isBasic tableau (f_var c) \<longrightarrow> bDeltaToFDelta \<noteq> 0)"
    and "fx \<in> set (activeFix cfg c (isBasic tableau (b_var c)) bDeltaToFDelta fDeltaToBDelta)"
  then show "fst (valuesAfterFix c bDeltaToFDelta fDeltaToBDelta fx)
                = snd (valuesAfterFix c bDeltaToFDelta fDeltaToBDelta fx)"
    by (blast intro: activeFix_lands [OF assms(3)])
next
  fix fx
  assume a: "dep \<and> b_var c \<noteq> f_var c \<and> isBasic tableau (b_var c) \<noteq> isBasic tableau (f_var c)
          \<and> (isBasic tableau (f_var c) \<longrightarrow> bDeltaToFDelta \<noteq> 0)"
    and i: "fx \<in> set (inactiveFix c (isBasic tableau (f_var c)) bDeltaToFDelta fDeltaToBDelta)"
  from a have "b_var c \<noteq> f_var c" and "isBasic tableau (f_var c) \<longrightarrow> bDeltaToFDelta \<noteq> 0"
    by simp_all
  from inactiveFix_lands [OF this i]
  show "snd (valuesAfterFix c bDeltaToFDelta fDeltaToBDelta fx) = 0" by simp
next
  fix fx
  assume a: "dep \<and> b_var c \<noteq> f_var c \<and> isBasic tableau (b_var c) \<noteq> isBasic tableau (f_var c)
          \<and> (isBasic tableau (f_var c) \<longrightarrow> bDeltaToFDelta \<noteq> 0)"
    and i: "fx \<in> set (inactiveFix c (isBasic tableau (f_var c)) bDeltaToFDelta fDeltaToBDelta)"
  from a have "b_var c \<noteq> f_var c" and "isBasic tableau (f_var c) \<longrightarrow> bDeltaToFDelta \<noteq> 0"
    by simp_all
  from inactiveFix_lands [OF this i]
  show "fst (valuesAfterFix c bDeltaToFDelta fDeltaToBDelta fx) \<le> 0" by simp
next
  assume "(if isBasic tableau (b_var c) then fDeltaToBDelta else bDeltaToFDelta) = 1"
  then show "activeFix cfg c (isBasic tableau (b_var c)) bDeltaToFDelta fDeltaToBDelta = []"
    by (rule activeFix_skipped [OF assms(3)])
qed

lemma getSmartFixes_repairs_example:
  "getSmartFixes exactConfiguration commentConstraint commentTableau = Inr [Fix 1 4]
   \<and> valuesAfterFix commentConstraint (- 1 / 2) (- 2) (Fix 1 4) = (4, 4)"
  using getSmartFixes_repairs
    [where cfg = exactConfiguration and c = commentConstraint and tableau = commentTableau
       and dep = True and bDeltaToFDelta = "- 1 / 2" and fDeltaToBDelta = "- 2"]
  by (simp add: exactConfiguration_def commentConstraint_def commentTableau_def
      ReluConstraint_of_def satisfied_def existsAssignment_def getAssignment_def
      isNegative_def isPositive_def areEqual_def activeFix_def inactiveFix_def
      valuesAfterFix_def Let_def)


text \<open>
  C8 fails for the active repair: the code emits it without checking the sign of the
  value it leads to, where the source comment says "We want to set f = b > 0" and the
  inactive repair does check \<open>b \<le> 0\<close>. At \<open>b = 0\<close>, \<open>f = 1\<close>, \<open>f\<close> basic with
  coefficient \<open>4\<close>, the constraint is unsatisfied and \<^verbatim>\<open>getSmartFixes\<close> returns the active
  repair \<open>b := -1/3\<close> first; applying it gives \<open>b = f = -1/3\<close>, an assignment with a
  negative \<open>f\<close> that \<^verbatim>\<open>satisfied\<close> rejects, so the repair is not feasible for the Active
  phase.
\<close>

theorem getSmartFixes_active_repair_negative:
  "satisfied exactConfiguration steepConstraint = Inr False
   \<and> getSmartFixes exactConfiguration steepConstraint steepTableau
       = Inr [Fix 0 (- 1 / 3), Fix 0 (- 1 / 4)]
   \<and> activeFix exactConfiguration steepConstraint False 4 (1 / 4) = [Fix 0 (- 1 / 3)]
   \<and> valuesAfterFix steepConstraint 4 (1 / 4) (Fix 0 (- 1 / 3)) = (- 1 / 3, - 1 / 3)
   \<and> satisfied exactConfiguration steepRepaired = Inr False"
  by (simp add: exactConfiguration_def steepConstraint_def steepTableau_def
      steepRepaired_def ReluConstraint_of_def satisfied_def existsAssignment_def
      getAssignment_def isNegative_def isPositive_def areEqual_def getSmartFixes_def
      activeFix_def inactiveFix_def valuesAfterFix_def Let_def)

subsection \<open>Serialization\<close>



















lemma word_of_int_unat: "word_of_int (int (unat (w :: variable))) = w"
  by simp






end
